theory Spec2Isabelle
  imports
    Complex_Main
    "HOL-Library.Multiset"
    "HOL-Library.Char_ord"
    "HOL-Library.List_Lexorder"
    "HOL-Library.Product_Lexorder"
begin

section \<open>The coordinator \<open>mosaic\<close> of \<open>src/s2mosaic/coordinator.py\<close>\<close>

text \<open>
  \<open>output_dir\<close> is \<open>Optional[Union[Path, str]]\<close>. The coordinator only tests it for
  truthiness (\<open>if output_dir:\<close>): \<open>None\<close> and the empty string are false, every
  \<open>Path\<close> object is true.
\<close>

datatype out_dir = NoDir | StrDir string | PathDir string

fun truthy :: "out_dir \<Rightarrow> bool" where
  "truthy NoDir = False"
| "truthy (StrDir s) = (s \<noteq> [])"
| "truthy (PathDir p) = True"

text \<open>
  The one \<open>raise\<close> of the coordinator is \<open>Exception("No scenes found for ...")\<close>, carrying
  the grid id and the two dates: \<open>NoScenesFound\<close>. The helpers are imported from
  \<open>.helpers\<close>; what they raise reaches the caller unchanged, as \<open>ConfigurationError\<close>
  (the validation) or \<open>CollaboratorError\<close> (any other helper).
\<close>

datatype 'd error =
    NoScenesFound string 'd 'd
  | ConfigurationError string
  | CollaboratorError string

record mosaic_args =
  grid_id :: string
  start_year :: int
  start_month :: int
  start_day :: int
  output_dir :: out_dir
  sort_method :: string
  mosaic_method :: string
  duration_years :: int
  duration_months :: int
  duration_days :: int
  required_bands :: "string list"
  no_data_threshold :: "rat option"
  overwrite :: bool
  ocm_batch_size :: int
  ocm_inference_dtype :: string
  debug_cache :: bool

text \<open>
  The helpers the coordinator imports, as parameters: \<open>'b\<close> bounds, \<open>'d\<close> dates, \<open>'i\<close>
  catalogue items, \<open>'s\<close> the annotated item table, \<open>'a\<close> the mosaic array, \<open>'p\<close> its
  profile. Each may raise. \<open>path_exists\<close> is \<open>export_path.exists()\<close>.
\<close>

record ('b, 'd, 'i, 's, 'a, 'p) helpers =
  get_extent_from_grid_id :: "string \<Rightarrow> 'd error + 'b"
  validate_inputs :: "string \<Rightarrow> string \<Rightarrow> rat option \<Rightarrow> string list \<Rightarrow> 'd error + unit"
  define_dates :: "int \<Rightarrow> int \<Rightarrow> int \<Rightarrow> int \<Rightarrow> int \<Rightarrow> int \<Rightarrow> 'd error + ('d \<times> 'd)"
  get_output_path ::
    "string \<Rightarrow> 'd \<Rightarrow> 'd \<Rightarrow> string \<Rightarrow> string \<Rightarrow> string list \<Rightarrow> out_dir \<Rightarrow> 'd error + string"
  path_exists :: "string \<Rightarrow> bool"
  search_for_items :: "'b \<Rightarrow> string \<Rightarrow> 'd \<Rightarrow> 'd \<Rightarrow> 'd error + 'i list"
  add_item_info :: "'i list \<Rightarrow> 'd error + 's"
  sort_items :: "'s \<Rightarrow> string \<Rightarrow> 'd error + 's"
  download_bands_pool ::
    "'s \<Rightarrow> string list \<Rightarrow> rat option \<Rightarrow> string \<Rightarrow> int \<Rightarrow> string \<Rightarrow> bool \<Rightarrow> 'd error + ('a \<times> 'p)"
  export_tif :: "'a \<Rightarrow> 'p \<Rightarrow> string \<Rightarrow> string list \<Rightarrow> int option \<Rightarrow> 'd error + unit"

text \<open>
  The work a run performs, in order: the catalogue search, the annotation, the sort, the
  download (fetching, cloud masking and compositing all happen inside
  \<open>download_bands_pool\<close>) and the raster export with the band labels and the nodata
  value it is given.
\<close>

datatype ('b, 'd, 'i, 's, 'a, 'p) event =
    SearchCall 'b string 'd 'd
  | AnnotateCall "'i list"
  | SortCall 's string
  | DownloadCall 's "string list" "rat option" string int string bool
  | ExportCall 'a 'p string "string list" "int option"

datatype ('a, 'p) returned = ReturnPath string | ReturnArray 'a 'p

text \<open>
  Lines 166--170: the band labels and the nodata value handed to the export.
\<close>

definition export_labels :: "string list \<Rightarrow> string list \<times> int option" where
  "export_labels rb =
     (if ''visual'' \<in> set rb then ([''Red'', ''Green'', ''Blue''], None) else (rb, Some 0))"

text \<open>
  Lines 144--182. \<open>export_path\<close> is bound exactly when \<open>output_dir\<close> is truthy, so the
  test \<open>if output_dir:\<close> of line 172 is the case distinction on it.
\<close>

definition run_pipeline ::
  "('b, 'd, 'i, 's, 'a, 'p) helpers \<Rightarrow> mosaic_args \<Rightarrow> 'b \<Rightarrow> 'd \<Rightarrow> 'd \<Rightarrow> string option
    \<Rightarrow> ('b, 'd, 'i, 's, 'a, 'p) event list \<times> ('d error + ('a, 'p) returned)" where
  "run_pipeline h a bounds start_date end_date export_path =
     (let tr1 = [SearchCall bounds (grid_id a) start_date end_date] in
      case search_for_items h bounds (grid_id a) start_date end_date of
        Inl e \<Rightarrow> (tr1, Inl e)
      | Inr items \<Rightarrow>
          if length items = 0 then (tr1, Inl (NoScenesFound (grid_id a) start_date end_date))
          else
            let tr2 = tr1 @ [AnnotateCall items] in
            (case add_item_info h items of
               Inl e \<Rightarrow> (tr2, Inl e)
             | Inr items_with_orbits \<Rightarrow>
                 let tr3 = tr2 @ [SortCall items_with_orbits (sort_method a)] in
                 (case sort_items h items_with_orbits (sort_method a) of
                    Inl e \<Rightarrow> (tr3, Inl e)
                  | Inr sorted_items \<Rightarrow>
                      let tr4 = tr3 @ [DownloadCall sorted_items (required_bands a)
                            (no_data_threshold a) (mosaic_method a) (ocm_batch_size a)
                            (ocm_inference_dtype a) (debug_cache a)] in
                      (case download_bands_pool h sorted_items (required_bands a)
                            (no_data_threshold a) (mosaic_method a) (ocm_batch_size a)
                            (ocm_inference_dtype a) (debug_cache a) of
                         Inl e \<Rightarrow> (tr4, Inl e)
                       | Inr (mosaic_array, profile) \<Rightarrow>
                           let (labels, nodata_value) = export_labels (required_bands a) in
                           (case export_path of
                              None \<Rightarrow> (tr4, Inr (ReturnArray mosaic_array profile))
                            | Some p \<Rightarrow>
                                let tr5 = tr4 @ [ExportCall mosaic_array profile p labels
                                      nodata_value] in
                                (case export_tif h mosaic_array profile p labels nodata_value of
                                   Inl e \<Rightarrow> (tr5, Inl e)
                                 | Inr u \<Rightarrow> (tr5, Inr (ReturnPath p))))))))"

text \<open>Lines 117--142, then the pipeline.\<close>

definition mosaic ::
  "('b, 'd, 'i, 's, 'a, 'p) helpers \<Rightarrow> mosaic_args
    \<Rightarrow> ('b, 'd, 'i, 's, 'a, 'p) event list \<times> ('d error + ('a, 'p) returned)" where
  "mosaic h a =
     (case get_extent_from_grid_id h (grid_id a) of
        Inl e \<Rightarrow> ([], Inl e)
      | Inr bounds \<Rightarrow>
          (case validate_inputs h (sort_method a) (mosaic_method a) (no_data_threshold a)
                 (required_bands a) of
             Inl e \<Rightarrow> ([], Inl e)
           | Inr u \<Rightarrow>
               (case define_dates h (start_year a) (start_month a) (start_day a)
                      (duration_years a) (duration_months a) (duration_days a) of
                  Inl e \<Rightarrow> ([], Inl e)
                | Inr (start_date, end_date) \<Rightarrow>
                    if truthy (output_dir a) then
                      (case get_output_path h (grid_id a) start_date end_date (sort_method a)
                              (mosaic_method a) (required_bands a) (output_dir a) of
                         Inl e \<Rightarrow> ([], Inl e)
                       | Inr export_path \<Rightarrow>
                           if path_exists h export_path \<and> \<not> overwrite a
                           then ([], Inr (ReturnPath export_path))
                           else run_pipeline h a bounds start_date end_date (Some export_path))
                    else run_pipeline h a bounds start_date end_date None)))"

text \<open>A small instance of the helpers and of the arguments, to run the coordinator on.\<close>

definition example_helpers :: "bool \<Rightarrow> nat list \<Rightarrow> (unit, nat, nat, nat list, nat, unit) helpers" where
  "example_helpers ex found =
     \<lparr> get_extent_from_grid_id = (\<lambda>g. Inr ()),
       validate_inputs = (\<lambda>sm mm thr rb. Inr ()),
       define_dates = (\<lambda>y m d dy dm dd. Inr (nat y, nat (y + dy))),
       get_output_path = (\<lambda>g s e sm mm rb od. Inr (g @ ''.tif'')),
       path_exists = (\<lambda>p. ex),
       search_for_items = (\<lambda>b g s e. Inr found),
       add_item_info = (\<lambda>items. Inr items),
       sort_items = (\<lambda>items sm. Inr items),
       download_bands_pool = (\<lambda>s rb thr mm bs dt dc. Inr (length s, ())),
       export_tif = (\<lambda>arr prof p rb nd. Inr ()) \<rparr>"

definition example_args :: "out_dir \<Rightarrow> string list \<Rightarrow> bool \<Rightarrow> mosaic_args" where
  "example_args od rb ow =
     \<lparr> grid_id = ''50HMH'', start_year = 2022, start_month = 1, start_day = 1,
       output_dir = od, sort_method = ''valid_data'', mosaic_method = ''mean'',
       duration_years = 1, duration_months = 0, duration_days = 0,
       required_bands = rb, no_data_threshold = Some (1 / 100), overwrite = ow,
       ocm_batch_size = 1, ocm_inference_dtype = ''bf16'', debug_cache = False \<rparr>"

section \<open>Configuration validation\<close>

text \<open>
  Modelled from the spec: \<open>validate_inputs\<close> lives in the helpers module, which is not
  among the sources. The configuration surface of the spec: the sort policy is one of
  \<open>valid_data\<close>, \<open>oldest\<close>, \<open>newest\<close>; the mosaic method is \<open>mean\<close> or \<open>first\<close>; the
  band list is non-empty and does not mix the visual composite band with other bands;
  the no-data threshold lies in \<open>[0, 1]\<close> or is disabled. A violation is a configuration
  error. The checks run in the order of the arguments.
\<close>

definition valid_sort_method :: "string \<Rightarrow> bool" where
  "valid_sort_method sm = (sm \<in> set [''valid_data'', ''oldest'', ''newest''])"

definition valid_mosaic_method :: "string \<Rightarrow> bool" where
  "valid_mosaic_method mm = (mm \<in> set [''mean'', ''first''])"

definition valid_threshold :: "rat option \<Rightarrow> bool" where
  "valid_threshold thr = (case thr of None \<Rightarrow> True | Some t \<Rightarrow> 0 \<le> t \<and> t \<le> 1)"

definition valid_band_list :: "string list \<Rightarrow> bool" where
  "valid_band_list rb = (rb \<noteq> [] \<and> (if ''visual'' \<in> set rb then rb = [''visual''] else True))"

definition validate_inputs_spec ::
  "string \<Rightarrow> string \<Rightarrow> rat option \<Rightarrow> string list \<Rightarrow> 'd error + unit" where
  "validate_inputs_spec sm mm thr rb =
     (if \<not> valid_sort_method sm then Inl (ConfigurationError ''sort_method'')
      else if \<not> valid_mosaic_method mm then Inl (ConfigurationError ''mosaic_method'')
      else if \<not> valid_threshold thr then Inl (ConfigurationError ''no_data_threshold'')
      else if \<not> valid_band_list rb then Inl (ConfigurationError ''required_bands'')
      else Inr ())"

section \<open>The scene sorter\<close>

text \<open>
  Modelled from the spec: \<open>sort_items\<close> lives in the helpers module, which is not among
  the sources. A scene item carries a stable identifier, an acquisition timestamp, a
  relative orbit and the scene-level estimate of usable pixels that the \<open>valid_data\<close>
  policy orders by. \<open>valid_data\<close> orders by descending estimate, \<open>oldest\<close> and \<open>newest\<close>
  by ascending and descending acquisition date; ties are broken by the scene
  identifier.
\<close>

record scene_item =
  scene_id :: string
  acquired :: int
  relative_orbit :: nat
  usable_estimate :: rat

datatype sort_policy = ValidData | Oldest | Newest

fun primary_key :: "sort_policy \<Rightarrow> scene_item \<Rightarrow> rat" where
  "primary_key ValidData s = - usable_estimate s"
| "primary_key Oldest s = of_int (acquired s)"
| "primary_key Newest s = - of_int (acquired s)"

definition sort_scenes :: "sort_policy \<Rightarrow> scene_item list \<Rightarrow> scene_item list" where
  "sort_scenes pol xs = sort_key (\<lambda>s. (primary_key pol s, scene_id s)) xs"

text \<open>The order the sorter promises: the primary key first, the identifier on ties.\<close>

definition scene_le :: "sort_policy \<Rightarrow> scene_item \<Rightarrow> scene_item \<Rightarrow> bool" where
  "scene_le pol s t =
     (primary_key pol s < primary_key pol t
      \<or> (primary_key pol s = primary_key pol t \<and> scene_id s \<le> scene_id t))"

section \<open>The compositor\<close>

text \<open>
  Modelled from the spec: the compositing fold lives in \<open>download_bands_pool\<close> of the
  helpers module, which is not among the sources. All stacks of one run share the
  tile's pixel grid: \<open>nb\<close> bands and \<open>n\<close> pixels (the height times width grid, flattened),
  so a stack is indexed by band and pixel. A pixel of a scene is usable only if the
  scene's own no-data indicator and the cloud mask agree. Values are exact rationals.
\<close>

type_synonym pixel = nat

record masked_stack =
  band_values :: "nat \<Rightarrow> pixel \<Rightarrow> rat"
  has_data :: "pixel \<Rightarrow> bool"
  cloud_mask :: "pixel \<Rightarrow> bool"

definition usable :: "masked_stack \<Rightarrow> pixel \<Rightarrow> bool" where
  "usable s p = (has_data s p \<and> cloud_mask s p)"

datatype mosaic_rule = Mean | First

text \<open>
  The accumulator: per pixel and band the running sum (\<open>mean\<close>) or the winner so far
  (\<open>first\<close>), per pixel the count of contributions and the finalized flag.
\<close>

record accumulator =
  acc_value :: "nat \<Rightarrow> pixel \<Rightarrow> rat"
  acc_count :: "pixel \<Rightarrow> nat"
  finalized :: "pixel \<Rightarrow> bool"

definition empty_acc :: accumulator where
  "empty_acc = \<lparr> acc_value = (\<lambda>b p. 0), acc_count = (\<lambda>p. 0), finalized = (\<lambda>p. False) \<rparr>"

fun fold_scene :: "mosaic_rule \<Rightarrow> masked_stack \<Rightarrow> accumulator \<Rightarrow> accumulator" where
  "fold_scene Mean s acc =
     \<lparr> acc_value = (\<lambda>b p. if usable s p then acc_value acc b p + band_values s b p
                            else acc_value acc b p),
       acc_count = (\<lambda>p. if usable s p then acc_count acc p + 1 else acc_count acc p),
       finalized = (\<lambda>p. finalized acc p \<or> usable s p) \<rparr>"
| "fold_scene First s acc =
     \<lparr> acc_value = (\<lambda>b p. if \<not> finalized acc p \<and> usable s p then band_values s b p
                            else acc_value acc b p),
       acc_count = acc_count acc,
       finalized = (\<lambda>p. finalized acc p \<or> usable s p) \<rparr>"

definition invalid_count :: "nat \<Rightarrow> accumulator \<Rightarrow> nat" where
  "invalid_count n acc = length (filter (\<lambda>p. \<not> finalized acc p) [0..<n])"

definition invalid_fraction :: "nat \<Rightarrow> accumulator \<Rightarrow> rat" where
  "invalid_fraction n acc = of_nat (invalid_count n acc) / of_nat n"

text \<open>
  The early exit. The spec allows the remaining scenes to be skipped once the remaining
  invalid fraction is at or below the threshold, and requires that the threshold 0
  processes every scene: the fold skips when the fraction is strictly below the
  threshold. A disabled threshold never stops the fold.
\<close>

definition stop_early :: "rat option \<Rightarrow> nat \<Rightarrow> accumulator \<Rightarrow> bool" where
  "stop_early thr n acc = (case thr of None \<Rightarrow> False | Some t \<Rightarrow> invalid_fraction n acc < t)"

fun fold_scenes ::
  "mosaic_rule \<Rightarrow> nat \<Rightarrow> rat option \<Rightarrow> masked_stack list \<Rightarrow> accumulator \<Rightarrow> accumulator" where
  "fold_scenes m n thr [] acc = acc"
| "fold_scenes m n thr (s # ss) acc =
     (let acc' = fold_scene m s acc in
      if stop_early thr n acc' then acc' else fold_scenes m n thr ss acc')"

text \<open>The scenes the fold takes in before it stops: a prefix of the sorted list.\<close>

fun scenes_folded ::
  "mosaic_rule \<Rightarrow> nat \<Rightarrow> rat option \<Rightarrow> masked_stack list \<Rightarrow> accumulator \<Rightarrow> masked_stack list" where
  "scenes_folded m n thr [] acc = []"
| "scenes_folded m n thr (s # ss) acc =
     (let acc' = fold_scene m s acc in
      if stop_early thr n acc' then [s] else s # scenes_folded m n thr ss acc')"

fun pixel_out :: "mosaic_rule \<Rightarrow> rat \<Rightarrow> accumulator \<Rightarrow> nat \<Rightarrow> pixel \<Rightarrow> rat" where
  "pixel_out Mean nodata acc b p =
     (if acc_count acc p = 0 then nodata else acc_value acc b p / of_nat (acc_count acc p))"
| "pixel_out First nodata acc b p = (if finalized acc p then acc_value acc b p else nodata)"

definition render :: "mosaic_rule \<Rightarrow> nat \<Rightarrow> nat \<Rightarrow> rat \<Rightarrow> accumulator \<Rightarrow> rat list list" where
  "render m nb n nodata acc = map (\<lambda>b. map (\<lambda>p. pixel_out m nodata acc b p) [0..<n]) [0..<nb]"

definition composite ::
  "mosaic_rule \<Rightarrow> nat \<Rightarrow> nat \<Rightarrow> rat option \<Rightarrow> rat \<Rightarrow> masked_stack list \<Rightarrow> rat list list \<times> rat" where
  "composite m nb n thr nodata scenes =
     (let acc = fold_scenes m n thr scenes empty_acc in
      (render m nb n nodata acc, invalid_fraction n acc))"

text \<open>A scene with one value on every band and pixel, usable on the listed pixels.\<close>

definition flat_scene :: "rat \<Rightarrow> pixel list \<Rightarrow> masked_stack" where
  "flat_scene v ps =
     \<lparr> band_values = (\<lambda>b p. v), has_data = (\<lambda>p. True), cloud_mask = (\<lambda>p. p \<in> set ps) \<rparr>"

text \<open>
  The two aggregation rules in the words of the spec, over a list of scenes: the value
  of the first scene that marks the pixel usable, and the average over the scenes that
  mark it usable; the nodata sentinel when there is none.
\<close>

definition first_valid_value :: "rat \<Rightarrow> masked_stack list \<Rightarrow> nat \<Rightarrow> pixel \<Rightarrow> rat" where
  "first_valid_value nodata ss b p =
     (case find (\<lambda>s. usable s p) ss of Some s \<Rightarrow> band_values s b p | None \<Rightarrow> nodata)"


text \<open>A scene item with the given identifier and acquisition time.\<close>

definition example_scene :: "string \<Rightarrow> int \<Rightarrow> scene_item" where
  "example_scene i t =
     \<lparr> scene_id = i, acquired = t, relative_orbit = 1, usable_estimate = 1 / 2 \<rparr>"



definition unresolved_grid_helpers :: "(unit, nat, nat, nat list, nat, unit) helpers" where
  "unresolved_grid_helpers =
     (example_helpers False [7])
       \<lparr> get_extent_from_grid_id := (\<lambda>g. Inl (CollaboratorError ''Grid not found'')),
         validate_inputs := validate_inputs_spec \<rparr>"

section \<open>Properties of the coordinator\<close>

lemma run_pipeline_export:
  assumes "ExportCall arr prof p labels nd \<in> set (fst (run_pipeline h a b sd ed ep))"
  shows "(labels, nd) = export_labels (required_bands a)"
  using assms unfolding run_pipeline_def
  by (auto simp: Let_def split: sum.splits if_splits prod.splits option.splits)

lemma mosaic_export:
  assumes "ExportCall arr prof p labels nd \<in> set (fst (mosaic h a))"
  shows "(labels, nd) = export_labels (required_bands a)"
  using assms unfolding mosaic_def
  by (auto split: sum.splits if_splits prod.splits dest: run_pipeline_export)

lemma run_pipeline_search:
  assumes "SearchCall b' g sd' ed' \<in> set (fst (run_pipeline h a b sd ed ep))"
  shows "b' = b \<and> g = grid_id a \<and> sd' = sd \<and> ed' = ed"
  using assms unfolding run_pipeline_def
  by (auto simp: Let_def split: sum.splits if_splits prod.splits option.splits)

lemma run_pipeline_empty:
  assumes "search_for_items h b (grid_id a) sd ed = Inr []"
  shows "run_pipeline h a b sd ed ep
           = ([SearchCall b (grid_id a) sd ed], Inl (NoScenesFound (grid_id a) sd ed))"
  using assms unfolding run_pipeline_def by simp





text \<open>
  C6. When the catalogue search of a call returns no scene, the call fails with the
  no-scenes error, and the search is the only work it performed: no annotation, sort,
  download (fetch, mask, composite) or export.
\<close>

theorem no_candidates_fails:
  assumes "SearchCall b g sd ed \<in> set (fst (mosaic h a))"
    and "search_for_items h b g sd ed = Inr []"
  shows "mosaic h a = ([SearchCall b g sd ed], Inl (NoScenesFound g sd ed))"
  using assms unfolding mosaic_def
  by (auto split: sum.splits if_splits prod.splits
      dest!: run_pipeline_search simp: run_pipeline_empty)

theorem no_candidates_fails_witness:
  "SearchCall () ''50HMH'' 2022 2023
     \<in> set (fst (mosaic (example_helpers False []) (example_args NoDir [''B04''] True)))
   \<and> search_for_items (example_helpers False []) () ''50HMH'' 2022 2023 = Inr []
   \<and> mosaic (example_helpers False []) (example_args NoDir [''B04''] True)
       = ([SearchCall () ''50HMH'' 2022 2023], Inl (NoScenesFound ''50HMH'' 2022 2023))"
proof -
  have s: "SearchCall () ''50HMH'' 2022 2023
     \<in> set (fst (mosaic (example_helpers False []) (example_args NoDir [''B04''] True)))"
    by (simp add: mosaic_def run_pipeline_def example_helpers_def example_args_def)
  have e: "search_for_items (example_helpers False []) () ''50HMH'' 2022 2023 = Inr []"
    by (simp add: example_helpers_def)
  from no_candidates_fails [OF s e] s e show ?thesis by simp
qed

text \<open>
  C7, as amended. A configuration that the validation rejects (unsupported sort or mosaic method,
  threshold outside \<open>[0, 1]\<close>, malformed band list) makes the call fail before any
  search, download or export; the failure is the configuration error whenever the grid
  id resolved, the one step that precedes the validation.
\<close>

theorem invalid_configuration_fails_fast:
  assumes "validate_inputs h (sort_method a) (mosaic_method a) (no_data_threshold a)
             (required_bands a)
           = validate_inputs_spec (sort_method a) (mosaic_method a) (no_data_threshold a)
               (required_bands a)"
    and "\<not> (valid_sort_method (sort_method a) \<and> valid_mosaic_method (mosaic_method a)
             \<and> valid_threshold (no_data_threshold a) \<and> valid_band_list (required_bands a))"
  shows "fst (mosaic h a) = []
         \<and> (\<exists>e. snd (mosaic h a) = Inl e)
         \<and> (\<forall>b. get_extent_from_grid_id h (grid_id a) = Inr b
               \<longrightarrow> (\<exists>msg. snd (mosaic h a) = Inl (ConfigurationError msg)))"
proof -
  have "\<exists>msg. validate_inputs h (sort_method a) (mosaic_method a) (no_data_threshold a)
             (required_bands a) = Inl (ConfigurationError msg)"
    unfolding assms(1) using assms(2) by (auto simp: validate_inputs_spec_def)
  then obtain msg where "validate_inputs h (sort_method a) (mosaic_method a) (no_data_threshold a)
             (required_bands a) = Inl (ConfigurationError msg)"
    by blast
  then show ?thesis
    unfolding mosaic_def by (auto split: sum.splits)
qed

theorem invalid_configuration_fails_fast_witness:
  "\<not> valid_sort_method (sort_method ((example_args NoDir [''B04''] True)\<lparr>sort_method := ''random''\<rparr>))
   \<and> mosaic ((example_helpers False [7])\<lparr>validate_inputs := validate_inputs_spec\<rparr>)
       ((example_args NoDir [''B04''] True)\<lparr>sort_method := ''random''\<rparr>)
       = ([], Inl (ConfigurationError ''sort_method''))"
  using invalid_configuration_fails_fast [of
      "(example_helpers False [7])\<lparr>validate_inputs := validate_inputs_spec\<rparr>"
      "(example_args NoDir [''B04''] True)\<lparr>sort_method := ''random''\<rparr>"]
  by (simp add: mosaic_def example_helpers_def example_args_def validate_inputs_spec_def
      valid_sort_method_def)

text \<open>
  C7, as stated, fails when the grid id does not resolve: the lookup of line 117 runs
  before the validation of line 119, and the call with the unsupported sort method fails
  with the error of the lookup, not with the configuration error.
\<close>

theorem grid_error_precedes_configuration_counterexample:
  "\<not> valid_sort_method
       (sort_method ((example_args NoDir [''B04''] True)\<lparr>sort_method := ''random''\<rparr>))
   \<and> mosaic unresolved_grid_helpers
       ((example_args NoDir [''B04''] True)\<lparr>sort_method := ''random''\<rparr>)
       = ([], Inl (CollaboratorError ''Grid not found''))"
  by (simp add: mosaic_def unresolved_grid_helpers_def example_helpers_def example_args_def
      valid_sort_method_def)

text \<open>
  C9. The overwrite policy is decided before the pipeline: when the output directory is
  given, the computed export path exists and \<open>overwrite\<close> is false, the call returns
  that path and performs no search, download or export.
\<close>

theorem overwrite_false_returns_existing:
  assumes "get_extent_from_grid_id h (grid_id a) = Inr b"
    and "validate_inputs h (sort_method a) (mosaic_method a) (no_data_threshold a)
           (required_bands a) = Inr u"
    and "define_dates h (start_year a) (start_month a) (start_day a)
           (duration_years a) (duration_months a) (duration_days a) = Inr (sd, ed)"
    and "truthy (output_dir a)"
    and "get_output_path h (grid_id a) sd ed (sort_method a) (mosaic_method a)
           (required_bands a) (output_dir a) = Inr p"
    and "path_exists h p"
    and "\<not> overwrite a"
  shows "mosaic h a = ([], Inr (ReturnPath p))"
  using assms unfolding mosaic_def by simp

theorem overwrite_false_returns_existing_witness:
  "truthy (output_dir (example_args (StrDir ''out'') [''B04''] False))
   \<and> path_exists (example_helpers True [7]) ''50HMH.tif''
   \<and> \<not> overwrite (example_args (StrDir ''out'') [''B04''] False)
   \<and> mosaic (example_helpers True [7]) (example_args (StrDir ''out'') [''B04''] False)
       = ([], Inr (ReturnPath ''50HMH.tif''))"
  using overwrite_false_returns_existing [of "example_helpers True [7]"
      "example_args (StrDir ''out'') [''B04''] False" "()" "()" 2022 2023 "''50HMH.tif''"]
  by (simp add: example_helpers_def example_args_def)

text \<open>
  C10. When \<open>required_bands\<close> does not contain \<open>visual\<close>, every raster export the call
  performs is handed the nodata value 0 (and the requested bands as labels), whatever
  the bands are.
\<close>

theorem nodata_zero_without_visual:
  assumes "''visual'' \<notin> set (required_bands a)"
    and "ExportCall arr prof p labels nd \<in> set (fst (mosaic h a))"
  shows "nd = Some 0 \<and> labels = required_bands a"
  using mosaic_export [OF assms(2)] assms(1) by (simp add: export_labels_def)

theorem nodata_zero_without_visual_witness:
  "''visual'' \<notin> set (required_bands (example_args (StrDir ''out'') [''B04'', ''B08''] True))
   \<and> ExportCall 2 () ''50HMH.tif'' [''B04'', ''B08''] (Some 0)
       \<in> set (fst (mosaic (example_helpers False [7, 8])
                 (example_args (StrDir ''out'') [''B04'', ''B08''] True)))
   \<and> Some (0::int) = Some 0"
proof -
  have v: "''visual'' \<notin> set (required_bands (example_args (StrDir ''out'') [''B04'', ''B08''] True))"
    by (simp add: example_args_def)
  have e: "ExportCall 2 () ''50HMH.tif'' [''B04'', ''B08''] (Some 0)
       \<in> set (fst (mosaic (example_helpers False [7, 8])
                 (example_args (StrDir ''out'') [''B04'', ''B08''] True)))"
    by (simp add: mosaic_def run_pipeline_def example_helpers_def example_args_def
        export_labels_def)
  from nodata_zero_without_visual [OF v e] v e show ?thesis by simp
qed

section \<open>Properties of the scene sorter\<close>

lemma scene_key_le:
  "((primary_key pol s, scene_id s) \<le> (primary_key pol t, scene_id t)) = scene_le pol s t"
  by (auto simp: scene_le_def)

text \<open>
  C8. For every policy the sorter returns a permutation of its input, ordered by the
  primary key with ties ordered by scene identifier; with distinct identifiers the
  result does not depend on the order in which the scenes arrive, so the order is
  total and reproducible.
\<close>

theorem sort_scenes_total_order:
  "mset (sort_scenes pol xs) = mset xs
   \<and> sorted_wrt (scene_le pol) (sort_scenes pol xs)
   \<and> (distinct (map scene_id xs) \<longrightarrow> mset ys = mset xs
        \<longrightarrow> sort_scenes pol ys = sort_scenes pol xs)"
proof -
  let ?k = "\<lambda>s. (primary_key pol s, scene_id s)"
  have "sorted (map ?k (sort_scenes pol xs))"
    by (simp add: sort_scenes_def)
  then have "sorted_wrt (\<lambda>x y. ?k x \<le> ?k y) (sort_scenes pol xs)"
    by (simp only: sorted_map)
  moreover have "(\<lambda>x y. ?k x \<le> ?k y) = scene_le pol"
    by (intro ext) (rule scene_key_le)
  ultimately have srt: "sorted_wrt (scene_le pol) (sort_scenes pol xs)"
    by (simp only:)
  have det: "sort_scenes pol ys = sort_scenes pol xs"
    if d: "distinct (map scene_id xs)" and m: "mset ys = mset xs"
  proof -
    have inj: "inj_on ?k (set xs)"
      using d by (auto simp: inj_on_def distinct_map)
    have s: "set ys = set xs" using m by (rule mset_eq_setD)
    have dx: "distinct (map ?k xs)"
      using d inj by (simp add: distinct_map)
    have "mset (map ?k ys) = mset (map ?k xs)" using m by simp
    then have dy: "distinct (map ?k ys)"
      using dx by (metis mset_eq_imp_distinct_iff)
    have "map ?k (sort_key ?k ys) = map ?k (sort_key ?k xs)"
    proof (rule sorted_distinct_set_unique)
      show "distinct (map ?k (sort_key ?k ys))"
        using dy by (metis distinct_map distinct_sort set_sort)
      show "distinct (map ?k (sort_key ?k xs))"
        using dx by (metis distinct_map distinct_sort set_sort)
    qed (simp_all add: s)
    moreover have "inj_on ?k (set (sort_key ?k ys) \<union> set (sort_key ?k xs))"
      using inj by (simp add: s)
    ultimately show ?thesis
      unfolding sort_scenes_def by (rule inj_on_map_eq_map [THEN iffD1, rotated])
  qed
  with srt show ?thesis by (simp add: sort_scenes_def)
qed

theorem sort_scenes_total_order_witness:
  "distinct (map scene_id [example_scene ''b'' 3, example_scene ''a'' 3, example_scene ''c'' 1])
   \<and> sort_scenes Oldest [example_scene ''a'' 3, example_scene ''c'' 1, example_scene ''b'' 3]
       = sort_scenes Oldest [example_scene ''b'' 3, example_scene ''a'' 3, example_scene ''c'' 1]
   \<and> sort_scenes Oldest [example_scene ''b'' 3, example_scene ''a'' 3, example_scene ''c'' 1]
       = [example_scene ''c'' 1, example_scene ''a'' 3, example_scene ''b'' 3]"
  using sort_scenes_total_order [of Oldest
      "[example_scene ''b'' 3, example_scene ''a'' 3, example_scene ''c'' 1]"
      "[example_scene ''a'' 3, example_scene ''c'' 1, example_scene ''b'' 3]"]
  by (simp add: example_scene_def sort_scenes_def add_mset_commute)

section \<open>Properties of the compositor\<close>

lemma stop_early_None [simp]: "stop_early None n acc = False"
  by (simp add: stop_early_def)

lemma scenes_folded_None: "scenes_folded m n None ss acc = ss"
  by (induction ss arbitrary: acc) (simp_all add: Let_def)

lemma fold_scenes_None_append:
  "fold_scenes m n None (xs @ ys) acc = fold_scenes m n None ys (fold_scenes m n None xs acc)"
  by (induction xs arbitrary: acc) (simp_all add: Let_def)

lemma fold_scenes_folded:
  "fold_scenes m n thr ss acc = fold_scenes m n None (scenes_folded m n thr ss acc) acc"
  by (induction ss arbitrary: acc) (simp_all add: Let_def)

lemma scenes_folded_prefix:
  "take (length (scenes_folded m n thr ss acc)) ss = scenes_folded m n thr ss acc"
  by (induction ss arbitrary: acc) (simp_all add: Let_def)

lemma finalized_fold_scene:
  "finalized (fold_scene m s acc) p = (finalized acc p \<or> usable s p)"
  by (cases m) simp_all

lemma finalized_fold_scenes:
  "finalized (fold_scenes m n None ss acc) p = (finalized acc p \<or> (\<exists>s\<in>set ss. usable s p))"
  by (induction ss arbitrary: acc) (auto simp: Let_def finalized_fold_scene)

lemma first_value_fold_scenes:
  "acc_value (fold_scenes First n None ss acc) b p =
     (if finalized acc p then acc_value acc b p
      else case find (\<lambda>s. usable s p) ss of
             Some s \<Rightarrow> band_values s b p
           | None \<Rightarrow> acc_value acc b p)"
  by (induction ss arbitrary: acc) (auto simp: Let_def split: option.splits)



lemma invalid_fraction_nonneg: "0 \<le> invalid_fraction n acc"
  by (simp add: invalid_fraction_def)

lemma stop_early_zero: "stop_early (Some 0) n acc = False"
  using invalid_fraction_nonneg [of n acc] by (simp add: stop_early_def not_less)

lemma fold_scenes_zero: "fold_scenes m n (Some 0) ss acc = fold_scenes m n None ss acc"
  by (induction ss arbitrary: acc) (simp_all add: Let_def stop_early_zero)

lemma scenes_folded_zero: "scenes_folded m n (Some 0) ss acc = ss"
  by (induction ss arbitrary: acc) (simp_all add: Let_def stop_early_zero)




lemma render_nth:
  "b < nb \<Longrightarrow> p < n \<Longrightarrow> render m nb n nd acc ! b ! p = pixel_out m nd acc b p"
  by (simp add: render_def)

lemma first_pixel_out:
  "pixel_out First nd (fold_scenes First n None ss empty_acc) b p = first_valid_value nd ss b p"
  by (auto simp: first_value_fold_scenes finalized_fold_scenes empty_acc_def first_valid_value_def
      find_None_iff split: option.splits dest: find_Some_iff [THEN iffD1])

lemma first_stable:
  assumes "finalized acc p"
  shows "pixel_out First nd (fold_scenes First n None ss acc) b p = pixel_out First nd acc b p"
  using assms by (simp add: first_value_fold_scenes finalized_fold_scenes)



lemmas run_defs = composite_def render_def stop_early_def invalid_fraction_def invalid_count_def
  empty_acc_def flat_scene_def usable_def Let_def first_valid_value_def

text \<open>
  C1. With the threshold 0 the early exit never fires: every scene of the sorted list is
  folded in, and the output array and the invalid fraction are those of the fold with
  the early exit disabled.
\<close>

theorem threshold_zero_equals_full_fold:
  "composite m nb n (Some 0) nodata scenes = composite m nb n None nodata scenes
   \<and> scenes_folded m n (Some 0) scenes empty_acc = scenes"
  by (simp add: composite_def fold_scenes_zero scenes_folded_zero)

theorem threshold_zero_equals_full_fold_witness:
  "composite Mean 1 1 (Some 0) 0 [flat_scene 10 [0], flat_scene 20 [0]] = ([[15]], 0)
   \<and> composite Mean 1 1 None 0 [flat_scene 10 [0], flat_scene 20 [0]] = ([[15]], 0)
   \<and> composite First 1 2 (Some 0) 0 [flat_scene 10 [0, 1], flat_scene 20 [0]]
       = composite First 1 2 None 0 [flat_scene 10 [0, 1], flat_scene 20 [0]]"
  using threshold_zero_equals_full_fold [of Mean 1 1 0 "[flat_scene 10 [0], flat_scene 20 [0]]"]
    threshold_zero_equals_full_fold [of First 1 2 0 "[flat_scene 10 [0, 1], flat_scene 20 [0]]"]
  by (simp add: run_defs)

text \<open>
  C2, as amended. Under \<open>first\<close> every pixel and band of the output holds the value of
  the first scene that marks the pixel usable among the scenes folded in before the
  early exit, and the nodata sentinel when none of them does; the folded scenes are a
  prefix of the sorted list, and all of it when the early exit is disabled; and a pixel
  finalized after any number of folded scenes keeps that value to the end.
\<close>

theorem first_takes_first_valid:
  assumes "b < nb" and "p < n"
  shows "fst (composite First nb n thr nodata scenes) ! b ! p
           = first_valid_value nodata (scenes_folded First n thr scenes empty_acc) b p
         \<and> scenes_folded First n thr scenes empty_acc
             = take (length (scenes_folded First n thr scenes empty_acc)) scenes
         \<and> scenes_folded First n None scenes empty_acc = scenes
         \<and> (\<forall>k. finalized (fold_scenes First n None
                    (take k (scenes_folded First n thr scenes empty_acc)) empty_acc) p
              \<longrightarrow> pixel_out First nodata (fold_scenes First n None
                    (take k (scenes_folded First n thr scenes empty_acc)) empty_acc) b p
                  = fst (composite First nb n thr nodata scenes) ! b ! p)"
proof -
  let ?fs = "scenes_folded First n thr scenes empty_acc"
  have out: "fst (composite First nb n thr nodata scenes) ! b ! p
      = pixel_out First nodata (fold_scenes First n None ?fs empty_acc) b p"
    using assms by (simp add: composite_def Let_def render_nth fold_scenes_folded [of First n thr])
  have 1: "fst (composite First nb n thr nodata scenes) ! b ! p = first_valid_value nodata ?fs b p"
    unfolding out by (rule first_pixel_out)
  have 2: "?fs = take (length ?fs) scenes"
    by (simp add: scenes_folded_prefix)
  have 4: "pixel_out First nodata (fold_scenes First n None (take k ?fs) empty_acc) b p
      = fst (composite First nb n thr nodata scenes) ! b ! p"
    if "finalized (fold_scenes First n None (take k ?fs) empty_acc) p" for k
  proof -
    have "fold_scenes First n None ?fs empty_acc
        = fold_scenes First n None (drop k ?fs) (fold_scenes First n None (take k ?fs) empty_acc)"
      using fold_scenes_None_append [of First n "take k ?fs" "drop k ?fs" empty_acc] by simp
    then show ?thesis
      unfolding out using first_stable [OF that] by simp
  qed
  from 1 2 4 show ?thesis by (simp add: scenes_folded_None)
qed

theorem first_takes_first_valid_witness:
  "(0::nat) < 1 \<and> (1::nat) < 2
   \<and> fst (composite First 1 2 None 0 [flat_scene 10 [0], flat_scene 20 [1]]) ! 0 ! 1
       = first_valid_value 0 [flat_scene 10 [0], flat_scene 20 [1]] 0 1
   \<and> first_valid_value 0 [flat_scene 10 [0], flat_scene 20 [1]] 0 1 = 20"
  using first_takes_first_valid [of 0 1 1 2 None 0 "[flat_scene 10 [0], flat_scene 20 [1]]"]
  by (simp add: first_valid_value_def flat_scene_def usable_def)

text \<open>
  C2, as stated, fails when the early exit skips a scene: with the threshold 3/4 the
  fold stops after the first scene (half of the grid is invalid), and pixel 1, usable
  in the second scene with value 20, is left at the nodata sentinel.
\<close>

theorem first_early_exit_counterexample:
  "fst (composite First 1 2 (Some (3 / 4)) 0 [flat_scene 10 [0], flat_scene 20 [1]]) ! 0 ! 1
     \<noteq> first_valid_value 0 [flat_scene 10 [0], flat_scene 20 [1]] 0 1"
  by (simp add: run_defs upt_rec)




end
